theory Spec2Isabelle
  imports Main "HOL-Library.Sublist"
begin

section \<open>The headless browser session of \<open>src/headless_browser.ts\<close>\<close>

text \<open>
  The class \<open>HeadlessBrowser\<close> talks to a browser's remote debugging endpoint over a
  web socket. Its methods are \<open>async\<close>: each one runs synchronously up to its next
  \<open>await\<close>, and the event loop runs socket handlers and other callers in between. The
  model follows that: every method is a function on the object's fields that runs up to the
  next \<open>await\<close> and says what it then waits for; a run of the program is a list of such
  atomic steps. Calls on the outside world (the socket, the subprocess, the timers) are
  appended, in program order, to a log kept beside the fields.
\<close>

subsection \<open>Strings\<close>

text \<open>
  \<open>String.prototype.indexOf\<close> with a string argument: the position of the first
  occurrence, or \<open>-1\<close>. \<open>String.prototype.replace\<close> with a string pattern replaces the
  first occurrence only, and leaves the string alone when there is none.
\<close>

fun indexOf :: "'a list \<Rightarrow> 'a list \<Rightarrow> int" where
  "indexOf [] pat = (if pat = [] then 0 else - 1)"
| "indexOf (c # cs) pat =
     (if prefix pat (c # cs) then 0
      else (let r = indexOf cs pat in if r < 0 then - 1 else r + 1))"

fun replace :: "'a list \<Rightarrow> 'a list \<Rightarrow> 'a list \<Rightarrow> 'a list" where
  "replace [] pat rep = (if pat = [] then rep else [])"
| "replace (c # cs) pat rep =
     (if prefix pat (c # cs) then rep @ drop (length pat) (c # cs)
      else c # replace cs pat rep)"

definition squote :: string where
  "squote = [CHR 0x27]"

definition dquote :: string where
  "dquote = [CHR 0x22]"

definition backtick :: string where
  "backtick = [CHR 0x60]"

subsection \<open>Protocol data\<close>

text \<open>
  An inbound frame after \<open>JSON.parse\<close>: a \<open>MessageResponse\<close> or a
  \<open>NotificationResponse\<close>. A key that is absent is \<open>None\<close>; \<open>'v\<close> stands for the
  TypeScript type \<open>unknown\<close> of the payloads.
\<close>

record 'v message =
  msg_method :: "string option"
  msg_id :: "int option"
  msg_result :: "'v option"
  msg_error :: "'v option"

text \<open>The outbound frame \<open>data\<close> of \<open>sendWebSocketMessage\<close>; \<open>'p\<close> is the type of
  the parameter values.\<close>

record 'p data =
  data_id :: int
  data_method :: string
  data_params :: "(string \<times> 'p) list option"

text \<open>
  The \<open>value\<close> of a result. The type \<open>SuccessResult\<close> declares it a string, its comment
  says that it is there for a string or a boolean, and the cast from \<open>unknown\<close> checks
  nothing: the protocol sends whatever primitive the expression evaluated to. Numbers are
  taken as integers. \<open>truthy\<close> is JavaScript's test in \<open>value || ""\<close>.
\<close>

datatype jsvalue = JString string | JNumber int | JBoolean bool | JNull

fun truthy :: "jsvalue \<Rightarrow> bool" where
  "truthy (JString s) = (s \<noteq> [])"
| "truthy (JNumber n) = (n \<noteq> 0)"
| "truthy (JBoolean b) = b"
| "truthy JNull = False"

text \<open>The types \<open>SuccessResult | ErrorResult | UndefinedResult\<close>, \<open>ExceptionDetails\<close>
  and \<open>DOMOutput\<close>, with the fields the class reads and their neighbours.\<close>

record Result =
  result_type :: string
  result_value :: "jsvalue option"
  result_className :: "string option"
  result_description :: "string option"

record Exception =
  exception_className :: string
  exception_description :: string
  exception_subtype :: string
  exception_type :: string

record ExceptionDetails =
  details_columnNumber :: int
  details_exception :: Exception
  details_exceptionId :: int
  details_lineNumber :: int
  details_scriptId :: string
  details_text :: string

record DOMOutput =
  dom_result :: Result
  dom_exceptionDetails :: "ExceptionDetails option"

text \<open>What a method can throw: \<open>Error\<close>, \<open>SyntaxError\<close>, the \<open>TypeError\<close> of a
  property read on \<open>undefined\<close> or \<open>null\<close>, and the payload a rejected promise carries.\<close>

datatype 'v error = Error string | SyntaxError string | TypeError | Payload 'v

subsection \<open>Deferred promises\<close>

text \<open>
  Modelled from the spec: \<open>deferred\<close> of \<open>deps.ts\<close>, which is not among the sources. The
  spec calls it a one-shot write-once container that is fulfilled at most once, with a
  success value or an error value: a promise with its own \<open>resolve\<close> and \<open>reject\<close>,
  where settling a settled promise does nothing.
\<close>

datatype 'v deferred = Pending | Resolved 'v | Rejected 'v

fun resolve :: "'v \<Rightarrow> 'v deferred \<Rightarrow> 'v deferred" where
  "resolve v Pending = Resolved v"
| "resolve v d = d"

fun reject :: "'v \<Rightarrow> 'v deferred \<Rightarrow> 'v deferred" where
  "reject e Pending = Rejected e"
| "reject e d = d"

text \<open>What \<open>await\<close> on a value yields once it is there: the value, a thrown rejection, or
  \<open>undefined\<close> when the awaited call returned nothing.\<close>

datatype 'v awaited = Value 'v | Thrown 'v | NoValue

fun settled :: "'v deferred \<Rightarrow> 'v awaited option" where
  "settled Pending = None"
| "settled (Resolved v) = Some (Value v)"
| "settled (Rejected e) = Some (Thrown e)"

subsection \<open>The object and the outside world\<close>

text \<open>
  The calls the class makes on the outside world: \<open>socket.send\<close> with a frame,
  \<open>await delay(ms)\<close>, the busy wait \<open>sleep(ms)\<close>, the closing of the subprocess's error
  stream and of the subprocess, \<open>socket.addEventListener("close", \<dots>)\<close> with the promise
  the listener resolves, \<open>socket.close()\<close>, and an exception that leaves an event handler.
  \<open>sleep\<close> and \<open>delay\<close> are recorded with their argument; the clock they wait on, and
  the output on the console, are not part of the model.
\<close>

datatype 'p effect =
    SocketSend "'p data"
  | Delay nat
  | Sleep nat
  | StderrClose
  | ProcessClose
  | AddCloseListener nat
  | SocketClose
  | Uncaught string

text \<open>
  The fields of the class. \<open>socket\<close> holds the URL the web socket was opened on;
  \<open>close_signals\<close> are the promises of the listeners that \<open>done\<close> has added to the
  socket's close event; \<open>log\<close> is the trace of effects. Request ids are JavaScript
  numbers, taken here as unbounded integers.
\<close>

record ('p, 'v) HeadlessBrowser =
  socket :: "string option"
  debug_url :: "string option"
  next_message_id :: int
  connected :: bool
  connecting :: bool
  is_done :: bool
  resolvables :: "int \<rightharpoonup> 'v deferred"
  close_signals :: "unit deferred list"
  log :: "'p effect list"

definition emit :: "'p effect \<Rightarrow> ('p, 'v) HeadlessBrowser \<Rightarrow> ('p, 'v) HeadlessBrowser" where
  "emit e this = this\<lparr>log := log this @ [e]\<rparr>"

text \<open>The field initialisers of the class (the constructor also starts the subprocess,
  which is outside this model).\<close>

definition new_HeadlessBrowser :: "('p, 'v) HeadlessBrowser" where
  "new_HeadlessBrowser =
     \<lparr>socket = None, debug_url = None, next_message_id = 1, connected = False,
      connecting = False, is_done = False, resolvables = Map.empty,
      close_signals = [], log = []\<rparr>"

subsection \<open>\<open>start\<close> and the socket handlers\<close>

text \<open>
  \<open>start\<close> polls the endpoint list until a fetch succeeds. The outcomes of the fetches
  are an argument: a failed attempt (anything thrown inside the \<open>try\<close>), or the value of
  \<open>json[0]["webSocketDebuggerUrl"]\<close>, which may be missing. When the list runs out the
  method is still polling. \<open>new WebSocket(this.debug_url || "")\<close> throws on the empty
  URL, before the field \<open>socket\<close> is assigned and before any handler is set; any other
  string is taken to be a URL the constructor accepts. The first component of the result
  says how the call ended.
\<close>

datatype start_state = StillPolling | Opened | ConstructorThrew

datatype fetch_result = FetchFailed | FetchJson "string option"

fun poll_endpoint :: "fetch_result list \<Rightarrow> string option option" where
  "poll_endpoint [] = None"
| "poll_endpoint (FetchFailed # fs) = poll_endpoint fs"
| "poll_endpoint (FetchJson debugUrl # fs) = Some debugUrl"

definition start ::
  "fetch_result list \<Rightarrow> ('p, 'v) HeadlessBrowser \<Rightarrow> start_state \<times> ('p, 'v) HeadlessBrowser" where
  "start fetches this =
     (let this1 = this\<lparr>connecting := True\<rparr> in
      case poll_endpoint fetches of
        None \<Rightarrow> (StillPolling, this1)
      | Some debugUrl \<Rightarrow>
          (let this2 = this1\<lparr>debug_url := debugUrl\<rparr>;
               url = (case debug_url this2 of None \<Rightarrow> [] | Some u \<Rightarrow> u)
           in if url = [] then (ConstructorThrew, this2)
              else (Opened, this2\<lparr>socket := Some url\<rparr>)))"

definition onopen :: "('p, 'v) HeadlessBrowser \<Rightarrow> ('p, 'v) HeadlessBrowser" where
  "onopen this =
     (let this1 = emit (SocketSend \<lparr>data_id = next_message_id this,
                                    data_method = ''Network.enable'',
                                    data_params = None\<rparr>) this
      in this1\<lparr>next_message_id := next_message_id this1 + 1\<rparr>)"

text \<open>\<open>if (message.method)\<close> is a truthiness test: the key is there and the string is
  not empty.\<close>

definition truthy_string :: "string option \<Rightarrow> bool" where
  "truthy_string x = (case x of None \<Rightarrow> False | Some s \<Rightarrow> s \<noteq> [])"

definition onmessage :: "'v message \<Rightarrow> ('p, 'v) HeadlessBrowser \<Rightarrow> ('p, 'v) HeadlessBrowser" where
  "onmessage message this =
     (if truthy_string (msg_method message)
         \<and> msg_method message = Some ''Network.loadingFinished''
      then this\<lparr>connected := True, connecting := False\<rparr>
      else
        (case msg_id message of
           None \<Rightarrow> this
         | Some i \<Rightarrow>
             (case resolvables this i of
                None \<Rightarrow> this
              | Some resolvable \<Rightarrow>
                  (let r1 = (case msg_result message of
                               None \<Rightarrow> resolvable
                             | Some v \<Rightarrow> resolve v resolvable);
                       r2 = (case msg_error message of
                               None \<Rightarrow> r1
                             | Some e \<Rightarrow> reject e r1)
                   in this\<lparr>resolvables := (resolvables this)(i \<mapsto> r2)\<rparr>))))"

text \<open>\<open>onclose\<close> and \<open>onerror\<close> return what they throw, beside the fields they have
  already written.\<close>

definition onclose :: "('p, 'v) HeadlessBrowser \<Rightarrow> string option \<times> ('p, 'v) HeadlessBrowser" where
  "onclose this =
     (let this1 = this\<lparr>connected := False, connecting := False\<rparr> in
      if is_done this1 = False then (Some ''Unhandled. todo'', this1) else (None, this1))"

definition onerror :: "('p, 'v) HeadlessBrowser \<Rightarrow> string option \<times> ('p, 'v) HeadlessBrowser" where
  "onerror this =
     (let this1 = this\<lparr>connected := False, connecting := False\<rparr> in
      if is_done this1 = False then (Some ''Unencountered error'', this1) else (None, this1))"

text \<open>An exception that leaves a handler is reported by the runtime and ends up in the
  log. The close event runs \<open>onclose\<close> and then the listeners added by \<open>done\<close>, each of
  which resolves its promise.\<close>

definition uncaught :: "string option \<times> ('p, 'v) HeadlessBrowser \<Rightarrow> ('p, 'v) HeadlessBrowser" where
  "uncaught r = (case fst r of None \<Rightarrow> snd r | Some e \<Rightarrow> emit (Uncaught e) (snd r))"

definition close_event :: "('p, 'v) HeadlessBrowser \<Rightarrow> ('p, 'v) HeadlessBrowser" where
  "close_event this =
     (let this1 = uncaught (onclose this)
      in this1\<lparr>close_signals := map (resolve ()) (close_signals this1)\<rparr>)"

subsection \<open>\<open>sendWebSocketMessage\<close>\<close>

text \<open>
  One activation of \<open>sendWebSocketMessage\<close>, up to its \<open>await\<close>. It ends waiting for the
  promise stored under an id (\<open>await pending\<close>), or waiting for \<open>delay(100)\<close> with the
  call it makes next, or by falling off the end of the function, which returns
  \<open>undefined\<close>. \<open>if (params)\<close> holds for every object, so only an absent argument is
  left out of the frame.
\<close>

datatype 'p send_state =
    AwaitSlot int
  | AwaitDelay nat string "(string \<times> 'p) list option"
  | ReturnedUndefined

definition sendWebSocketMessage ::
  "string \<Rightarrow> (string \<times> 'p) list option \<Rightarrow> ('p, 'v) HeadlessBrowser
    \<Rightarrow> 'p send_state \<times> ('p, 'v) HeadlessBrowser" where
  "sendWebSocketMessage method params this =
     (if connected this \<and> socket this \<noteq> None then
        (let data = \<lparr>data_id = next_message_id this, data_method = method,
                     data_params = None\<rparr>;
             this1 = this\<lparr>next_message_id := next_message_id this + 1\<rparr>;
             data1 = (case params of None \<Rightarrow> data
                      | Some ps \<Rightarrow> data\<lparr>data_params := Some ps\<rparr>);
             this2 = this1\<lparr>resolvables := (resolvables this1)(data_id data1 \<mapsto> Pending)\<rparr>;
             this3 = emit (SocketSend data1) this2
         in (AwaitSlot (data_id data1), this3))
      else if connecting this then
        (AwaitDelay 100 method params, emit (Delay 100) this)
      else (ReturnedUndefined, this))"

subsection \<open>\<open>done\<close>\<close>

text \<open>
  \<open>done\<close> runs without interruption up to \<open>await promise\<close>. The promise is known by
  its position among the close listeners. \<open>this.socket!\<close> on a session without a socket
  reads a property of \<open>null\<close>, which throws. \<open>done_run\<close> gives what the call ends with
  (the error, or the promise it awaits) and the session after each statement that it has
  executed, in the order of the source: \<open>sleep\<close>, the assignment of \<open>is_done\<close>, the two
  calls on the subprocess, \<open>addEventListener\<close>, \<open>close\<close>. \<open>done_method\<close> is the call
  as one step of a run, ending in the last of these sessions.
\<close>

definition done_run ::
  "('p, 'v) HeadlessBrowser \<Rightarrow> ('v error + nat) \<times> ('p, 'v) HeadlessBrowser list" where
  "done_run this =
     (let this1 = emit (Sleep 1000) this;
          this2 = this1\<lparr>is_done := True\<rparr>;
          this3 = emit StderrClose this2;
          this4 = emit ProcessClose this3
      in case socket this4 of
           None \<Rightarrow> (Inl TypeError, [this1, this2, this3, this4])
         | Some _ \<Rightarrow>
             (let promise = length (close_signals this4);
                  this5 = emit (AddCloseListener promise)
                            (this4\<lparr>close_signals := close_signals this4 @ [Pending]\<rparr>);
                  this6 = emit SocketClose this5
              in (Inr promise, [this1, this2, this3, this4, this5, this6])))"

definition done_method ::
  "('p, 'v) HeadlessBrowser \<Rightarrow> ('v error + nat) \<times> ('p, 'v) HeadlessBrowser" where
  "done_method this = (fst (done_run this), last (snd (done_run this)))"

definition await_promise :: "nat \<Rightarrow> ('p, 'v) HeadlessBrowser \<Rightarrow> unit awaited option" where
  "await_promise promise this =
     (if promise < length (close_signals this) then settled (close_signals this ! promise)
      else None)"

subsection \<open>Runs\<close>

text \<open>
  The atomic steps of a session: the calls of \<open>start\<close>, \<open>done\<close> and one activation of
  \<open>sendWebSocketMessage\<close>, and the events of the socket. The handlers are set by
  \<open>start\<close> on the socket it creates, so an event of a socket that does not exist changes
  nothing.
\<close>

datatype ('p, 'v) action =
    Start "fetch_result list"
  | OnOpen
  | OnMessage "'v message"
  | OnClose
  | OnError
  | Send string "(string \<times> 'p) list option"
  | Done

fun step :: "('p, 'v) action \<Rightarrow> ('p, 'v) HeadlessBrowser \<Rightarrow> ('p, 'v) HeadlessBrowser" where
  "step (Start fetches) this = snd (start fetches this)"
| "step OnOpen this = (if socket this = None then this else onopen this)"
| "step (OnMessage message) this =
     (if socket this = None then this else onmessage message this)"
| "step OnClose this = (if socket this = None then this else close_event this)"
| "step OnError this = (if socket this = None then this else uncaught (onerror this))"
| "step (Send method params) this = snd (sendWebSocketMessage method params this)"
| "step Done this = snd (done_method this)"

fun exec :: "('p, 'v) action list \<Rightarrow> ('p, 'v) HeadlessBrowser \<Rightarrow> ('p, 'v) HeadlessBrowser" where
  "exec [] this = this"
| "exec (a # as) this = exec as (step a this)"

text \<open>The frames written to the socket, oldest first.\<close>

fun frames :: "'p effect list \<Rightarrow> 'p data list" where
  "frames [] = []"
| "frames (SocketSend d # es) = d # frames es"
| "frames (e # es) = frames es"

text \<open>
  A whole call of \<open>sendWebSocketMessage\<close>: while an activation ends in \<open>delay(100)\<close>,
  the event loop runs the steps of the next round and the call is made again. The rounds
  are an argument; when they run out the call is still waiting.
\<close>

fun sendWebSocketMessage_rounds ::
  "('p, 'v) action list list \<Rightarrow> string \<Rightarrow> (string \<times> 'p) list option
    \<Rightarrow> ('p, 'v) HeadlessBrowser \<Rightarrow> 'p send_state \<times> ('p, 'v) HeadlessBrowser" where
  "sendWebSocketMessage_rounds [] method params this =
     sendWebSocketMessage method params this"
| "sendWebSocketMessage_rounds (round # rounds) method params this =
     (case sendWebSocketMessage method params this of
        (AwaitDelay ms method1 params1, this1) \<Rightarrow>
          sendWebSocketMessage_rounds rounds method1 params1 (exec round this1)
      | r \<Rightarrow> r)"

text \<open>What the caller's \<open>await\<close> on the call gets, if it is there yet.\<close>

fun await_send :: "'p send_state \<Rightarrow> ('p, 'v) HeadlessBrowser \<Rightarrow> 'v awaited option" where
  "await_send (AwaitSlot i) this =
     (case resolvables this i of None \<Rightarrow> None | Some pending \<Rightarrow> settled pending)"
| "await_send (AwaitDelay ms method params) this = None"
| "await_send ReturnedUndefined this = Some NoValue"

subsection \<open>The commands\<close>

definition checkForErrorResult :: "DOMOutput \<Rightarrow> string \<Rightarrow> 'v error + unit" where
  "checkForErrorResult result commandSent =
     (case dom_exceptionDetails result of
        None \<Rightarrow> Inr ()
      | Some exceptionDetail \<Rightarrow>
          (let errorMessage = exception_description (details_exception exceptionDetail) in
           if indexOf (exception_description (details_exception exceptionDetail))
                ''SyntaxError'' > - 1
           then
             (let message = replace errorMessage ''SyntaxError: '' [] in
              Inl (SyntaxError (message @ '': '' @ backtick @ commandSent @ backtick)))
           else Inl (Error (errorMessage @ '': '' @ dquote @ commandSent @ dquote))))"




definition getInputValue_command :: "string \<Rightarrow> string" where
  "getInputValue_command selector =
     ''document.querySelector('' @ squote @ selector @ squote @ '').value''"

definition getInputValue_send ::
  "string \<Rightarrow> (string, 'v) HeadlessBrowser \<Rightarrow> string send_state \<times> (string, 'v) HeadlessBrowser" where
  "getInputValue_send selector this =
     sendWebSocketMessage ''Runtime.evaluate''
       (Some [(''expression'', getInputValue_command selector)]) this"

text \<open>\<open>value || ""\<close> is the value when it is there and truthy, and the empty string
  otherwise: when the value is absent, and when it is \<open>false\<close>, \<open>0\<close>, \<open>null\<close> or the
  empty string.\<close>

definition getInputValue_resume :: "string \<Rightarrow> DOMOutput awaited \<Rightarrow> DOMOutput error + jsvalue" where
  "getInputValue_resume selector awaited =
     (case awaited of
        Thrown e \<Rightarrow> Inl (Payload e)
      | NoValue \<Rightarrow> Inl TypeError
      | Value res \<Rightarrow>
          (if result_type (dom_result res) = ''undefined'' then Inr (JString ''undefined'')
           else
             (case checkForErrorResult res (getInputValue_command selector) of
                Inl e \<Rightarrow> Inl e
              | Inr u \<Rightarrow>
                  (case result_value (dom_result res) of
                     None \<Rightarrow> Inr (JString [])
                   | Some v \<Rightarrow> if truthy v then Inr v else Inr (JString [])))))"

subsection \<open>The wording of the specification\<close>

text \<open>
  The specification says that the message of a syntax error has the
  \<open>"SyntaxError: "\<close> prefix stripped. Taken by its words, stripping a prefix removes the
  text when the string starts with it and leaves the string alone otherwise.
\<close>

definition strip_prefix_spec :: "'a list \<Rightarrow> 'a list \<Rightarrow> 'a list" where
  "strip_prefix_spec pat s = (if prefix pat s then drop (length pat) s else s)"

subsection \<open>Invariants of a run\<close>

text \<open>The frames sent so far carry the ids from 1 up to the one before the counter, in
  that order; only a session with a socket is connected; every id in the mapping has been
  given out.\<close>

definition ids_in_order :: "('p, 'v) HeadlessBrowser \<Rightarrow> bool" where
  "ids_in_order this =
     (1 \<le> next_message_id this
      \<and> map data_id (frames (log this)) = [1..next_message_id this - 1]
      \<and> (if connected this then socket this \<noteq> None else True)
      \<and> dom (resolvables this) \<subseteq> {1..next_message_id this - 1})"

subsection \<open>Sample sessions\<close>

text \<open>
  Concrete data for the properties below: the notification that ends the handshake; a
  session that has gone through \<open>start\<close>, the opening of the socket and that
  notification; evaluation results (a string value, an exception with a given description,
  the values \<open>false\<close> and \<open>0\<close>, an undefined result); success and error responses for an
  id; a session that has opened
  its socket and is still connecting; and a session with two commands pending.
\<close>

definition loadingFinished :: "'v message" where
  "loadingFinished =
     \<lparr>msg_method = Some ''Network.loadingFinished'', msg_id = None,
      msg_result = None, msg_error = None\<rparr>"

definition sample_ready :: "(string, DOMOutput) HeadlessBrowser" where
  "sample_ready =
     exec [Start [FetchFailed, FetchJson (Some ''ws://localhost:9292/devtools/page/1'')],
           OnOpen, OnMessage loadingFinished] new_HeadlessBrowser"

definition sample_value :: DOMOutput where
  "sample_value =
     \<lparr>dom_result = \<lparr>result_type = ''string'', result_value = Some (JString ''Edward''),
                     result_className = None, result_description = None\<rparr>,
      dom_exceptionDetails = None\<rparr>"

definition sample_exception :: "string \<Rightarrow> DOMOutput" where
  "sample_exception description =
     \<lparr>dom_result = \<lparr>result_type = ''object'', result_value = None,
                     result_className = Some ''SyntaxError'',
                     result_description = Some description\<rparr>,
      dom_exceptionDetails =
        Some \<lparr>details_columnNumber = 0,
              details_exception =
                \<lparr>exception_className = ''SyntaxError'',
                 exception_description = description,
                 exception_subtype = ''error'', exception_type = ''object''\<rparr>,
              details_exceptionId = 1, details_lineNumber = 0,
              details_scriptId = ''12'', details_text = ''Uncaught''\<rparr>\<rparr>"

definition response :: "int \<Rightarrow> 'v \<Rightarrow> 'v message" where
  "response i v = \<lparr>msg_method = None, msg_id = Some i, msg_result = Some v, msg_error = None\<rparr>"

definition error_response :: "int \<Rightarrow> 'v \<Rightarrow> 'v message" where
  "error_response i e = \<lparr>msg_method = None, msg_id = Some i, msg_result = None, msg_error = Some e\<rparr>"

definition sample_connecting :: "(string, DOMOutput) HeadlessBrowser" where
  "sample_connecting =
     exec [Start [FetchJson (Some ''ws://localhost:9292/devtools/page/1'')], OnOpen]
       new_HeadlessBrowser"

definition sample_two_pending :: "(string, DOMOutput) HeadlessBrowser" where
  "sample_two_pending =
     exec [Send ''Runtime.evaluate'' (Some [(''expression'', ''1 + 1'')]),
           Send ''Runtime.evaluate'' (Some [(''expression'', ''window.'')])] sample_ready"

definition sample_false :: DOMOutput where
  "sample_false =
     \<lparr>dom_result = \<lparr>result_type = ''boolean'', result_value = Some (JBoolean False),
                     result_className = None, result_description = None\<rparr>,
      dom_exceptionDetails = None\<rparr>"

definition sample_zero :: DOMOutput where
  "sample_zero =
     \<lparr>dom_result = \<lparr>result_type = ''number'', result_value = Some (JNumber 0),
                     result_className = None, result_description = None\<rparr>,
      dom_exceptionDetails = None\<rparr>"

definition sample_undefined :: DOMOutput where
  "sample_undefined =
     \<lparr>dom_result = \<lparr>result_type = ''undefined'', result_value = None,
                     result_className = None, result_description = None\<rparr>,
      dom_exceptionDetails = None\<rparr>"

section \<open>Properties\<close>

subsection \<open>Auxiliary facts\<close>

lemma frames_append: "frames (xs @ ys) = frames xs @ frames ys"
  by (induction xs rule: frames.induct) simp_all

lemma indexOf_ge: "- 1 \<le> indexOf s p"
  by (induction s) (auto simp: Let_def)

lemma indexOf_sublist: "0 \<le> indexOf s p \<longleftrightarrow> sublist p s"
proof (induction s)
  case Nil
  then show ?case by simp
next
  case (Cons c cs)
  have "- 1 \<le> indexOf cs p" by (rule indexOf_ge)
  with Cons show ?case
    by (auto simp: Let_def sublist_Cons_right)
qed

lemma indexOf_zero: "indexOf s p = 0 \<longleftrightarrow> prefix p s"
proof (cases s)
  case Nil
  then show ?thesis by simp
next
  case (Cons c cs)
  have "- 1 \<le> indexOf cs p" by (rule indexOf_ge)
  with Cons show ?thesis by (auto simp: Let_def)
qed

lemma replace_none: "indexOf s p < 0 \<Longrightarrow> replace s p r = s"
  by (induction s) (auto simp: Let_def split: if_splits)

lemma replace_at_prefix: "prefix p s \<Longrightarrow> replace s p r = r @ drop (length p) s"
  by (cases s) auto

lemma replace_prefix: "replace (p @ b) p r = r @ b"
  by (simp add: replace_at_prefix)

lemma replace_first:
  "indexOf (a @ p @ b) p = int (length a) \<Longrightarrow> replace (a @ p @ b) p r = a @ r @ b"
proof (induction a)
  case Nil
  then show ?case by (simp add: replace_prefix)
next
  case (Cons c a)
  from Cons.prems have np: "\<not> prefix p (c # a @ p @ b)"
    using indexOf_zero [of "c # a @ p @ b" p] by auto
  with Cons.prems have "indexOf (a @ p @ b) p = int (length a)"
    by (auto simp: Let_def split: if_splits)
  with Cons.IH np show ?case by simp
qed

lemma sample_ready_eq:
  "sample_ready =
     \<lparr>socket = Some ''ws://localhost:9292/devtools/page/1'',
      debug_url = Some ''ws://localhost:9292/devtools/page/1'',
      next_message_id = 2, connected = True, connecting = False, is_done = False,
      resolvables = Map.empty, close_signals = [],
      log = [SocketSend \<lparr>data_id = 1, data_method = ''Network.enable'', data_params = None\<rparr>]\<rparr>"
  by (simp add: sample_ready_def new_HeadlessBrowser_def start_def onopen_def onmessage_def
      emit_def loadingFinished_def truthy_string_def Let_def)

lemma step_ids_in_order: "ids_in_order this \<Longrightarrow> ids_in_order (step a this)"
proof (cases a)
  case (Start fs)
  assume "ids_in_order this"
  then show ?thesis using Start
    by (auto simp: ids_in_order_def start_def Let_def split: option.splits if_splits)
next
  case OnOpen
  assume "ids_in_order this"
  then show ?thesis using OnOpen
    by (auto simp: ids_in_order_def onopen_def emit_def frames_append upto_rec2 Let_def)
next
  case (OnMessage m)
  assume "ids_in_order this"
  then show ?thesis using OnMessage
    by (auto simp: ids_in_order_def onmessage_def Let_def split: option.splits)
next
  case OnClose
  assume "ids_in_order this"
  then show ?thesis using OnClose
    by (auto simp: ids_in_order_def close_event_def uncaught_def onclose_def emit_def
        frames_append Let_def split: option.splits)
next
  case OnError
  assume "ids_in_order this"
  then show ?thesis using OnError
    by (auto simp: ids_in_order_def uncaught_def onerror_def emit_def
        frames_append Let_def split: option.splits)
next
  case (Send m p)
  assume "ids_in_order this"
  then show ?thesis using Send
    by (auto simp: ids_in_order_def sendWebSocketMessage_def emit_def frames_append upto_rec2
        Let_def split: option.splits)
next
  case Done
  assume "ids_in_order this"
  then show ?thesis using Done
    by (auto simp: ids_in_order_def done_method_def done_run_def emit_def frames_append
        Let_def split: option.splits)
qed

lemma exec_ids_in_order: "ids_in_order this \<Longrightarrow> ids_in_order (exec steps this)"
  by (induction steps arbitrary: this) (simp_all add: step_ids_in_order)

lemma new_ids_in_order: "ids_in_order new_HeadlessBrowser"
  by (simp add: ids_in_order_def new_HeadlessBrowser_def)

lemma step_connected:
  "connected (step a this) \<Longrightarrow> \<not> connected this \<Longrightarrow>
     \<exists>m. a = OnMessage m \<and> msg_method m = Some ''Network.loadingFinished''"
  by (cases a)
    (auto simp: start_def onopen_def onmessage_def close_event_def uncaught_def onclose_def
      onerror_def sendWebSocketMessage_def done_method_def done_run_def emit_def Let_def
      split: option.splits if_splits)

lemma exec_connected:
  "connected (exec steps this) \<Longrightarrow> \<not> connected this \<Longrightarrow>
     \<exists>m. OnMessage m \<in> set steps \<and> msg_method m = Some ''Network.loadingFinished''"
proof (induction steps arbitrary: this)
  case Nil
  then show ?case by simp
next
  case (Cons a steps)
  show ?case
  proof (cases "connected (step a this)")
    case True
    with Cons.prems(2) step_connected [of a this] show ?thesis by auto
  next
    case False
    with Cons.IH [of "step a this"] Cons.prems(1) show ?thesis by auto
  qed
qed


lemma rounds_snoc:
  "sendWebSocketMessage_rounds rounds method params this = (AwaitDelay ms method1 params1, that) \<Longrightarrow>
     sendWebSocketMessage_rounds (rounds @ [round]) method params this =
       sendWebSocketMessage method1 params1 (exec round that)"
proof (induction rounds arbitrary: this)
  case Nil
  then show ?case by simp
next
  case (Cons r rounds)
  obtain st this1 where act: "sendWebSocketMessage method params this = (st, this1)"
    by (cases "sendWebSocketMessage method params this")
  show ?case
  proof (cases st)
    case (AwaitSlot i)
    with act Cons.prems show ?thesis by simp
  next
    case (AwaitDelay ms' m' p')
    with act have same: "m' = method" "p' = params"
      by (auto simp: sendWebSocketMessage_def Let_def split: if_splits)
    with act AwaitDelay Cons.prems Cons.IH [of "exec r this1"] show ?thesis by simp
  next
    case ReturnedUndefined
    with act Cons.prems show ?thesis by simp
  qed
qed

lemma rounds_waiting_same:
  "sendWebSocketMessage_rounds rounds method params this = (AwaitDelay ms method1 params1, that) \<Longrightarrow>
     ms = 100 \<and> method1 = method \<and> params1 = params"
proof (induction rounds arbitrary: this)
  case Nil
  then show ?case by (auto simp: sendWebSocketMessage_def Let_def split: if_splits)
next
  case (Cons r rounds)
  obtain st this1 where act: "sendWebSocketMessage method params this = (st, this1)"
    by (cases "sendWebSocketMessage method params this")
  show ?case
  proof (cases st)
    case (AwaitSlot i)
    with act Cons.prems show ?thesis by simp
  next
    case (AwaitDelay ms' m' p')
    with act have same: "m' = method" "p' = params"
      by (auto simp: sendWebSocketMessage_def Let_def split: if_splits)
    with act AwaitDelay Cons.prems Cons.IH [of "exec r this1"] show ?thesis by simp
  next
    case ReturnedUndefined
    with act Cons.prems show ?thesis by simp
  qed
qed

lemma send_connected:
  "connected this \<Longrightarrow> socket this \<noteq> None \<Longrightarrow>
     sendWebSocketMessage method params this =
       (AwaitSlot (next_message_id this),
        this\<lparr>next_message_id := next_message_id this + 1,
             resolvables := (resolvables this)(next_message_id this \<mapsto> Pending),
             log := log this @ [SocketSend \<lparr>data_id = next_message_id this,
                                            data_method = method, data_params = params\<rparr>]\<rparr>)"
  by (cases params) (simp_all add: sendWebSocketMessage_def emit_def Let_def)

lemma send_connecting:
  "\<not> connected this \<Longrightarrow> connecting this \<Longrightarrow>
     sendWebSocketMessage method params this =
       (AwaitDelay 100 method params, this\<lparr>log := log this @ [Delay 100]\<rparr>)"
  by (simp add: sendWebSocketMessage_def emit_def)

lemma onmessage_response_known:
  "msg_method m \<noteq> Some ''Network.loadingFinished'' \<Longrightarrow> msg_id m = Some i \<Longrightarrow>
   resolvables this i = Some d \<Longrightarrow>
     onmessage m this =
       this\<lparr>resolvables := (resolvables this)
         (i \<mapsto> (case msg_error m of
                  None \<Rightarrow> (case msg_result m of None \<Rightarrow> d | Some v \<Rightarrow> resolve v d)
                | Some e \<Rightarrow> reject e (case msg_result m of None \<Rightarrow> d | Some v \<Rightarrow> resolve v d)))\<rparr>"
  by (simp add: onmessage_def Let_def)

lemma onmessage_response_unknown:
  "msg_method m \<noteq> Some ''Network.loadingFinished'' \<Longrightarrow> msg_id m = Some i \<Longrightarrow>
   resolvables this i = None \<Longrightarrow> onmessage m this = this"
  by (simp add: onmessage_def)

lemma onmessage_dom: "dom (resolvables (onmessage m this)) = dom (resolvables this)"
  by (auto simp: onmessage_def Let_def split: option.splits)

lemma step_dom: "dom (resolvables this) \<subseteq> dom (resolvables (step a this))"
  by (cases a)
    (auto simp: start_def onopen_def onmessage_def close_event_def uncaught_def onclose_def
      onerror_def sendWebSocketMessage_def done_method_def done_run_def emit_def Let_def
      split: option.splits if_splits)

lemma exec_dom: "dom (resolvables this) \<subseteq> dom (resolvables (exec steps this))"
proof (induction steps arbitrary: this)
  case Nil
  show ?case by simp
next
  case (Cons a steps)
  have "dom (resolvables this) \<subseteq> dom (resolvables (step a this))" by (rule step_dom)
  also have "\<dots> \<subseteq> dom (resolvables (exec steps (step a this)))" by (rule Cons.IH)
  finally show ?case by simp
qed

lemma sample_connecting_eq:
  "sample_connecting =
     \<lparr>socket = Some ''ws://localhost:9292/devtools/page/1'',
      debug_url = Some ''ws://localhost:9292/devtools/page/1'',
      next_message_id = 2, connected = False, connecting = True, is_done = False,
      resolvables = Map.empty, close_signals = [],
      log = [SocketSend \<lparr>data_id = 1, data_method = ''Network.enable'', data_params = None\<rparr>]\<rparr>"
  by (simp add: sample_connecting_def new_HeadlessBrowser_def start_def onopen_def emit_def
      Let_def)

lemma sample_two_pending_eq:
  "sample_two_pending =
     \<lparr>socket = Some ''ws://localhost:9292/devtools/page/1'',
      debug_url = Some ''ws://localhost:9292/devtools/page/1'',
      next_message_id = 4, connected = True, connecting = False, is_done = False,
      resolvables = [2 \<mapsto> Pending, 3 \<mapsto> Pending], close_signals = [],
      log = [SocketSend \<lparr>data_id = 1, data_method = ''Network.enable'', data_params = None\<rparr>,
             SocketSend \<lparr>data_id = 2, data_method = ''Runtime.evaluate'',
                         data_params = Some [(''expression'', ''1 + 1'')]\<rparr>,
             SocketSend \<lparr>data_id = 3, data_method = ''Runtime.evaluate'',
                         data_params = Some [(''expression'', ''window.'')]\<rparr>]\<rparr>"
  by (simp add: sample_two_pending_def sample_ready_eq sendWebSocketMessage_def emit_def Let_def)

lemma step_next_id: "next_message_id this \<le> next_message_id (step a this)"
  by (cases a)
    (auto simp: start_def onopen_def onmessage_def close_event_def uncaught_def onclose_def
      onerror_def sendWebSocketMessage_def done_method_def done_run_def emit_def Let_def
      split: option.splits if_splits)

lemma exec_next_id: "next_message_id this \<le> next_message_id (exec steps this)"
proof (induction steps arbitrary: this)
  case Nil
  show ?case by simp
next
  case (Cons a steps)
  have "next_message_id this \<le> next_message_id (step a this)" by (rule step_next_id)
  also have "\<dots> \<le> next_message_id (exec steps (step a this))" by (rule Cons.IH)
  finally show ?case by simp
qed

lemma await_after_send:
  "connected this \<Longrightarrow> socket this \<noteq> None \<Longrightarrow>
     await_send (AwaitSlot (next_message_id this)) (snd (sendWebSocketMessage method params this)) = None
     \<and> await_send (AwaitSlot (next_message_id this))
          (onmessage (response (next_message_id this) v)
             (snd (sendWebSocketMessage method params this))) = Some (Value v)
     \<and> await_send (AwaitSlot (next_message_id this))
          (onmessage (error_response (next_message_id this) e)
             (snd (sendWebSocketMessage method params this))) = Some (Thrown e)"
  by (simp add: send_connected onmessage_def response_def error_response_def truthy_string_def)

subsection \<open>The mapping from request ids to pending slots\<close>

text \<open>
  C1, as stated: once the matching response has fulfilled a slot, the slot is removed from
  the mapping, so that the mapping holds only unfulfilled requests. In the session below a
  command is sent under id 2 and its response arrives; the mapping still holds id 2, with
  the fulfilled slot.
\<close>

theorem slot_kept_counterexample:
  "resolvables
     (exec [Send ''Runtime.evaluate'' None, OnMessage (response 2 sample_value)] sample_ready) 2
     = Some (Resolved sample_value)
   \<and> 2 \<in> dom (resolvables
     (exec [Send ''Runtime.evaluate'' None, OnMessage (response 2 sample_value)] sample_ready))"
  by (simp add: sample_ready_eq sendWebSocketMessage_def onmessage_def emit_def response_def
      truthy_string_def Let_def)

text \<open>
  C1, amended: when the matching response arrives, the pending slot is fulfilled with the
  success value or the error value and stays in the mapping under its id. The message
  handler leaves the set of ids in the mapping as it is, no step of a session removes an
  id, and so a fulfilled slot is still there after any further steps.
\<close>

theorem slot_kept:
  "dom (resolvables (onmessage m this)) = dom (resolvables this)
   \<and> dom (resolvables this) \<subseteq> dom (resolvables (exec steps this))
   \<and> (resolvables this i = Some Pending \<longrightarrow>
        resolvables (onmessage (response i v) this) i = Some (Resolved v)
        \<and> resolvables (onmessage (error_response i e) this) i = Some (Rejected e)
        \<and> resolvables (exec steps (onmessage (response i v) this)) i \<noteq> None
        \<and> resolvables (exec steps (onmessage (error_response i e) this)) i \<noteq> None)"
proof -
  have kept: "resolvables that i \<noteq> None \<Longrightarrow> resolvables (exec steps that) i \<noteq> None" for that
    using exec_dom [of that steps] by (auto simp: dom_def)
  have a: "resolvables this i = Some Pending \<Longrightarrow>
      resolvables (onmessage (response i v) this) i = Some (Resolved v)"
    by (simp add: onmessage_def response_def truthy_string_def)
  have b: "resolvables this i = Some Pending \<Longrightarrow>
      resolvables (onmessage (error_response i e) this) i = Some (Rejected e)"
    by (simp add: onmessage_def error_response_def truthy_string_def)
  show ?thesis
    using onmessage_dom [of m this] exec_dom [of this steps] a b
      kept [of "onmessage (response i v) this"] kept [of "onmessage (error_response i e) this"]
    by simp
qed

text \<open>The amended C1 on the sample session: the slot of request 2 is pending after the
  send and fulfilled, under the same id, after the response.\<close>

theorem slot_kept_witness:
  "resolvables (snd (sendWebSocketMessage ''Runtime.evaluate'' None sample_ready)) 2 = Some Pending
   \<and> resolvables (onmessage (response 2 sample_value)
        (snd (sendWebSocketMessage ''Runtime.evaluate'' None sample_ready))) 2
      = Some (Resolved sample_value)"
  using slot_kept [of loadingFinished
      "snd (sendWebSocketMessage ''Runtime.evaluate'' None sample_ready)"
      "[]" 2 sample_value sample_value]
  by (simp add: sample_ready_eq sendWebSocketMessage_def emit_def Let_def)

subsection \<open>Responses are matched by id\<close>

text \<open>
  C2: a response frame (any frame that is not the loading-finished notification) with id
  \<open>i\<close> and a slot registered under \<open>i\<close> has \<open>resolve\<close> called on that slot with its
  result when the frame has one, and then \<open>reject\<close> with its error when it has one; a
  pending slot becomes resolved with the result, or rejected with the error when there is
  no result. No other slot and no other field changes. When no slot is registered under
  \<open>i\<close> the session is left exactly as it was. Two pending commands get each their own
  payload, whichever response comes first.
\<close>

theorem response_correlation:
  "(msg_method m \<noteq> Some ''Network.loadingFinished'' \<and> msg_id m = Some i \<longrightarrow>
      (resolvables this i = Some d \<longrightarrow>
         onmessage m this =
           this\<lparr>resolvables := (resolvables this)
             (i \<mapsto> (case msg_error m of
                      None \<Rightarrow> (case msg_result m of None \<Rightarrow> d | Some v \<Rightarrow> resolve v d)
                    | Some e \<Rightarrow>
                        reject e (case msg_result m of None \<Rightarrow> d | Some v \<Rightarrow> resolve v d)))\<rparr>)
      \<and> (resolvables this i = Some Pending \<and> msg_result m = Some v \<longrightarrow>
           resolvables (onmessage m this) i = Some (Resolved v))
      \<and> (resolvables this i = Some Pending \<and> msg_result m = None \<and> msg_error m = Some e \<longrightarrow>
           resolvables (onmessage m this) i = Some (Rejected e))
      \<and> (j \<noteq> i \<longrightarrow> resolvables (onmessage m this) j = resolvables this j)
      \<and> (resolvables this i = None \<longrightarrow> onmessage m this = this))
   \<and> (i \<noteq> j \<and> resolvables this i = Some Pending \<and> resolvables this j = Some Pending \<longrightarrow>
        await_send (AwaitSlot i) (onmessage (response i v) (onmessage (response j w) this))
          = Some (Value v)
        \<and> await_send (AwaitSlot j) (onmessage (response i v) (onmessage (response j w) this))
          = Some (Value w)
        \<and> onmessage (response i v) (onmessage (response j w) this)
          = onmessage (response j w) (onmessage (response i v) this))"
proof -
  have known: "msg_method m \<noteq> Some ''Network.loadingFinished'' \<Longrightarrow> msg_id m = Some i \<Longrightarrow>
      resolvables this i = Some d \<Longrightarrow>
         onmessage m this =
           this\<lparr>resolvables := (resolvables this)
             (i \<mapsto> (case msg_error m of
                      None \<Rightarrow> (case msg_result m of None \<Rightarrow> d | Some v \<Rightarrow> resolve v d)
                    | Some e \<Rightarrow>
                        reject e (case msg_result m of None \<Rightarrow> d | Some v \<Rightarrow> resolve v d)))\<rparr>"
    by (rule onmessage_response_known)
  have ok: "msg_method m \<noteq> Some ''Network.loadingFinished'' \<Longrightarrow> msg_id m = Some i \<Longrightarrow>
      resolvables this i = Some Pending \<Longrightarrow> msg_result m = Some v \<Longrightarrow>
      resolvables (onmessage m this) i = Some (Resolved v)"
    by (simp add: onmessage_def Let_def split: option.splits)
  have err: "msg_method m \<noteq> Some ''Network.loadingFinished'' \<Longrightarrow> msg_id m = Some i \<Longrightarrow>
      resolvables this i = Some Pending \<Longrightarrow> msg_result m = None \<Longrightarrow> msg_error m = Some e \<Longrightarrow>
      resolvables (onmessage m this) i = Some (Rejected e)"
    by (simp add: onmessage_def Let_def)
  have other: "msg_method m \<noteq> Some ''Network.loadingFinished'' \<Longrightarrow> msg_id m = Some i \<Longrightarrow>
      j \<noteq> i \<Longrightarrow> resolvables (onmessage m this) j = resolvables this j"
    by (simp add: onmessage_def Let_def split: option.splits)
  have unknown: "msg_method m \<noteq> Some ''Network.loadingFinished'' \<Longrightarrow> msg_id m = Some i \<Longrightarrow>
      resolvables this i = None \<Longrightarrow> onmessage m this = this"
    by (rule onmessage_response_unknown)
  have two: "i \<noteq> j \<Longrightarrow> resolvables this i = Some Pending \<Longrightarrow> resolvables this j = Some Pending \<Longrightarrow>
      onmessage (response i v) (onmessage (response j w) this)
        = this\<lparr>resolvables := (resolvables this)(i \<mapsto> Resolved v, j \<mapsto> Resolved w)\<rparr>"
    by (simp add: onmessage_def response_def truthy_string_def fun_upd_twist)
  have two': "i \<noteq> j \<Longrightarrow> resolvables this i = Some Pending \<Longrightarrow> resolvables this j = Some Pending \<Longrightarrow>
      onmessage (response j w) (onmessage (response i v) this)
        = this\<lparr>resolvables := (resolvables this)(i \<mapsto> Resolved v, j \<mapsto> Resolved w)\<rparr>"
    by (simp add: onmessage_def response_def truthy_string_def)
  show ?thesis
    using known ok err other unknown two two' by simp
qed

text \<open>C2 on the sample session with requests 2 and 3 pending: the responses arrive in
  reverse order, an error response rejects, and a response with the unknown id 9 changes
  nothing.\<close>

theorem response_correlation_witness:
  "resolvables sample_two_pending 2 = Some Pending
   \<and> resolvables sample_two_pending 3 = Some Pending
   \<and> await_send (AwaitSlot 2)
        (onmessage (response 2 sample_value)
           (onmessage (response 3 (sample_exception ''SyntaxError: Unexpected end of input''))
              sample_two_pending))
      = Some (Value sample_value)
   \<and> await_send (AwaitSlot 3)
        (onmessage (response 2 sample_value)
           (onmessage (response 3 (sample_exception ''SyntaxError: Unexpected end of input''))
              sample_two_pending))
      = Some (Value (sample_exception ''SyntaxError: Unexpected end of input''))
   \<and> resolvables (onmessage (error_response 2 sample_undefined) sample_two_pending) 2
      = Some (Rejected sample_undefined)
   \<and> resolvables sample_two_pending 9 = None
   \<and> onmessage (response 9 sample_value) sample_two_pending = sample_two_pending"
  using
    response_correlation [where m = "response 9 sample_value" and i = 9
      and this = sample_two_pending and j = 2 and v = sample_value
      and w = "sample_exception ''SyntaxError: Unexpected end of input''"]
    response_correlation [where m = "error_response 2 sample_undefined" and i = 2
      and this = sample_two_pending and j = 3 and v = sample_value and e = sample_undefined
      and w = "sample_exception ''SyntaxError: Unexpected end of input''"]
  by (simp add: sample_two_pending_eq response_def error_response_def onmessage_def
      truthy_string_def Let_def)

subsection \<open>Sending while connected\<close>

text \<open>
  C3: the counter starts at 1. A call of \<open>sendWebSocketMessage\<close> on a connected session
  takes the current counter as the id and increments the counter, stores a pending slot
  under the id, writes the frame with the id, the method and the parameters (absent
  parameters stay absent) to the socket, and waits for that slot: the call is still
  waiting after the send, and completes with the payload once the response for the id has
  been handled. In every run from a new session the ids of the frames written so far,
  handshake included, are \<open>1, 2, \<dots>\<close> up to the counter minus one, so they are distinct
  and increasing; the counter never decreases; no slot is stored yet under the id the
  next send will use; and a connected session has a socket.
\<close>

theorem send_allocates_next_id:
  "next_message_id new_HeadlessBrowser = 1
   \<and> (connected this \<and> socket this \<noteq> None \<longrightarrow>
        sendWebSocketMessage method params this =
          (AwaitSlot (next_message_id this),
           this\<lparr>next_message_id := next_message_id this + 1,
                resolvables := (resolvables this)(next_message_id this \<mapsto> Pending),
                log := log this @ [SocketSend \<lparr>data_id = next_message_id this,
                                               data_method = method, data_params = params\<rparr>]\<rparr>)
        \<and> await_send (AwaitSlot (next_message_id this))
             (snd (sendWebSocketMessage method params this)) = None
        \<and> await_send (AwaitSlot (next_message_id this))
             (onmessage (response (next_message_id this) v)
                (snd (sendWebSocketMessage method params this))) = Some (Value v)
        \<and> await_send (AwaitSlot (next_message_id this))
             (onmessage (error_response (next_message_id this) e)
                (snd (sendWebSocketMessage method params this))) = Some (Thrown e))
   \<and> map data_id (frames (log (exec steps new_HeadlessBrowser)))
        = [1..next_message_id (exec steps new_HeadlessBrowser) - 1]
   \<and> distinct (map data_id (frames (log (exec steps new_HeadlessBrowser))))
   \<and> next_message_id this \<le> next_message_id (exec steps this)
   \<and> resolvables (exec steps new_HeadlessBrowser)
        (next_message_id (exec steps new_HeadlessBrowser)) = None
   \<and> (connected (exec steps new_HeadlessBrowser) \<longrightarrow>
        socket (exec steps new_HeadlessBrowser) \<noteq> None)"
proof -
  have inv: "ids_in_order (exec steps new_HeadlessBrowser)"
    by (rule exec_ids_in_order [OF new_ids_in_order])
  then have ids: "map data_id (frames (log (exec steps new_HeadlessBrowser)))
        = [1..next_message_id (exec steps new_HeadlessBrowser) - 1]"
    by (simp add: ids_in_order_def)
  then have dist: "distinct (map data_id (frames (log (exec steps new_HeadlessBrowser))))"
    by simp
  from inv have sock: "connected (exec steps new_HeadlessBrowser) \<Longrightarrow>
        socket (exec steps new_HeadlessBrowser) \<noteq> None"
    by (simp add: ids_in_order_def split: if_splits)
  from inv have fresh: "resolvables (exec steps new_HeadlessBrowser)
        (next_message_id (exec steps new_HeadlessBrowser)) = None"
    by (auto simp: ids_in_order_def)
  have first: "next_message_id new_HeadlessBrowser = 1"
    by (simp add: new_HeadlessBrowser_def)
  show ?thesis
    using first ids dist sock fresh exec_next_id [of this steps]
      send_connected [of this "method" "params"]
      await_after_send [of this "method" "params" v e]
    by simp
qed

text \<open>C3 on the sample session, whose handshake used id 1: the next command gets id 2
  and the counter moves to 3; without parameters the frame has none.\<close>

theorem send_allocates_next_id_witness:
  "connected sample_ready \<and> socket sample_ready \<noteq> None
   \<and> next_message_id sample_ready = 2
   \<and> fst (sendWebSocketMessage ''Runtime.evaluate'' (Some [(''expression'', ''1 + 1'')])
        sample_ready) = AwaitSlot 2
   \<and> next_message_id (snd (sendWebSocketMessage ''Runtime.evaluate''
        (Some [(''expression'', ''1 + 1'')]) sample_ready)) = 3
   \<and> frames (log (snd (sendWebSocketMessage ''Runtime.evaluate''
        (Some [(''expression'', ''1 + 1'')]) sample_ready)))
      = [\<lparr>data_id = 1, data_method = ''Network.enable'', data_params = None\<rparr>,
         \<lparr>data_id = 2, data_method = ''Runtime.evaluate'',
          data_params = Some [(''expression'', ''1 + 1'')]\<rparr>]
   \<and> frames (log (snd (sendWebSocketMessage ''Network.enable'' None sample_ready)))
      = [\<lparr>data_id = 1, data_method = ''Network.enable'', data_params = None\<rparr>,
         \<lparr>data_id = 2, data_method = ''Network.enable'', data_params = None\<rparr>]"
  using
    send_allocates_next_id [of sample_ready "''Runtime.evaluate''"
      "Some [(''expression'', ''1 + 1'')]" sample_value sample_value "[]"]
    send_allocates_next_id [of sample_ready "''Network.enable''" None
      sample_value sample_value "[]"]
  by (simp add: sample_ready_eq sendWebSocketMessage_def emit_def Let_def)

subsection \<open>When the session becomes connected\<close>

text \<open>
  C6: in every run from a new session, and in every prefix of it, the session is connected
  only if a message with the method \<open>Network.loadingFinished\<close> has been handled. Neither
  \<open>start\<close> nor the open handler (which sends the handshake) changes \<open>connected\<close>, and
  the only step that turns it from false to true is the handling of such a message.
\<close>

theorem connected_only_after_loadingFinished:
  "(connected (exec steps new_HeadlessBrowser) \<longrightarrow>
      (\<exists>m. OnMessage m \<in> set steps \<and> msg_method m = Some ''Network.loadingFinished''))
   \<and> (connected (exec (take k steps) new_HeadlessBrowser) \<longrightarrow>
      (\<exists>m. OnMessage m \<in> set (take k steps) \<and> msg_method m = Some ''Network.loadingFinished''))
   \<and> connected (onopen this) = connected this
   \<and> connected (snd (start fetches this)) = connected this
   \<and> (\<not> connected this \<and> connected (step a this) \<longrightarrow>
        (\<exists>m. a = OnMessage m \<and> msg_method m = Some ''Network.loadingFinished''))"
proof -
  have init: "\<not> connected new_HeadlessBrowser"
    by (simp add: new_HeadlessBrowser_def)
  have opened: "connected (onopen this) = connected this"
    by (simp add: onopen_def emit_def Let_def)
  have started: "connected (snd (start fetches this)) = connected this"
    by (simp add: start_def Let_def split: option.splits)
  show ?thesis
    using exec_connected [OF _ init, of steps] exec_connected [OF _ init, of "take k steps"]
      opened started step_connected [of a this]
    by blast
qed

text \<open>C6 on a concrete run: connected after the notification, not connected before it.\<close>

theorem connected_only_after_loadingFinished_witness:
  "connected (exec [Start [FetchFailed, FetchJson (Some ''ws://localhost:9292/devtools/page/1'')],
                    OnOpen, OnMessage loadingFinished]
               (new_HeadlessBrowser :: (string, DOMOutput) HeadlessBrowser))
   \<and> (\<exists>m :: DOMOutput message.
         OnMessage m \<in> set [Start [FetchFailed, FetchJson (Some ''ws://localhost:9292/devtools/page/1'')],
                    OnOpen, (OnMessage loadingFinished :: (string, DOMOutput) action)]
         \<and> msg_method m = Some ''Network.loadingFinished'')
   \<and> \<not> connected (exec [Start [FetchFailed, FetchJson (Some ''ws://localhost:9292/devtools/page/1'')],
                    OnOpen]
               (new_HeadlessBrowser :: (string, DOMOutput) HeadlessBrowser))"
proof -
  have c: "connected (exec [Start [FetchFailed, FetchJson (Some ''ws://localhost:9292/devtools/page/1'')],
                    OnOpen, OnMessage loadingFinished]
               (new_HeadlessBrowser :: (string, DOMOutput) HeadlessBrowser))"
    using sample_ready_eq by (simp add: sample_ready_def)
  have n: "\<not> connected (exec [Start [FetchFailed, FetchJson (Some ''ws://localhost:9292/devtools/page/1'')],
                    OnOpen]
               (new_HeadlessBrowser :: (string, DOMOutput) HeadlessBrowser))"
    by (simp add: new_HeadlessBrowser_def start_def onopen_def emit_def Let_def)
  show ?thesis
    using c n connected_only_after_loadingFinished
      [where steps = "[Start [FetchFailed, FetchJson (Some ''ws://localhost:9292/devtools/page/1'')],
                    OnOpen, (OnMessage loadingFinished :: (string, DOMOutput) action)]"]
    by blast
qed

subsection \<open>Sending while connecting\<close>

text \<open>
  C7, as stated: a call made while the session is connecting repeats until the session is
  connected, then transmits its frame and succeeds. In the first run below the socket
  closes while the call waits: the call returns \<open>undefined\<close> and its frame is never
  written, and more rounds change nothing, since the call has returned. In the second the
  session becomes connected and the socket closes within the same delay, with the same
  end. In the third \<open>done\<close> is called and the socket closes while the call waits.
\<close>

theorem send_while_connecting_counterexample:
  "connecting sample_connecting \<and> \<not> connected sample_connecting
   \<and> fst (sendWebSocketMessage_rounds [[OnClose]] ''Runtime.evaluate''
        (Some [(''expression'', ''1 + 1'')]) sample_connecting) = ReturnedUndefined
   \<and> frames (log (snd (sendWebSocketMessage_rounds [[OnClose]] ''Runtime.evaluate''
        (Some [(''expression'', ''1 + 1'')]) sample_connecting)))
      = [\<lparr>data_id = 1, data_method = ''Network.enable'', data_params = None\<rparr>]
   \<and> sendWebSocketMessage_rounds [[OnClose], [], []] ''Runtime.evaluate''
        (Some [(''expression'', ''1 + 1'')]) sample_connecting
      = sendWebSocketMessage_rounds [[OnClose]] ''Runtime.evaluate''
        (Some [(''expression'', ''1 + 1'')]) sample_connecting
   \<and> fst (sendWebSocketMessage_rounds [[OnMessage loadingFinished, OnClose]]
        ''Runtime.evaluate'' (Some [(''expression'', ''1 + 1'')]) sample_connecting)
      = ReturnedUndefined
   \<and> frames (log (snd (sendWebSocketMessage_rounds [[OnMessage loadingFinished, OnClose]]
        ''Runtime.evaluate'' (Some [(''expression'', ''1 + 1'')]) sample_connecting)))
      = [\<lparr>data_id = 1, data_method = ''Network.enable'', data_params = None\<rparr>]
   \<and> fst (sendWebSocketMessage_rounds [[Done, OnClose]] ''Runtime.evaluate''
        (Some [(''expression'', ''1 + 1'')]) sample_connecting) = ReturnedUndefined
   \<and> frames (log (snd (sendWebSocketMessage_rounds [[Done, OnClose]] ''Runtime.evaluate''
        (Some [(''expression'', ''1 + 1'')]) sample_connecting)))
      = [\<lparr>data_id = 1, data_method = ''Network.enable'', data_params = None\<rparr>]"
  by (simp add: sample_connecting_eq sendWebSocketMessage_def emit_def onmessage_def
      loadingFinished_def truthy_string_def close_event_def uncaught_def onclose_def
      done_method_def done_run_def Let_def)

text \<open>
  C7, amended: a call of \<open>sendWebSocketMessage\<close> on a session that is connecting and not
  connected does not throw: it waits for \<open>delay(100)\<close> and makes the same call again, with
  the same method and parameters. As long as the call is still waiting after some rounds,
  it has only ever waited 100 ms at a time for the same call. What the next call does
  depends on the session it finds: when the session is still connecting, it waits again;
  when the session is connected, the frame with the method and parameters is written under
  the next id, and the call completes with the payload once the response for that id has
  been handled; when the session is neither connected nor connecting (the socket has
  closed or failed in the meantime), the call returns \<open>undefined\<close> and writes nothing.
\<close>

theorem send_while_connecting:
  "(connecting this \<and> \<not> connected this \<longrightarrow>
      sendWebSocketMessage method params this =
        (AwaitDelay 100 method params, this\<lparr>log := log this @ [Delay 100]\<rparr>)
      \<and> sendWebSocketMessage_rounds (evs # rounds) method params this =
          sendWebSocketMessage_rounds rounds method params
            (exec evs (this\<lparr>log := log this @ [Delay 100]\<rparr>)))
   \<and> (sendWebSocketMessage_rounds rounds method params this
         = (AwaitDelay ms method_again params_again, that) \<longrightarrow>
        ms = 100 \<and> method_again = method \<and> params_again = params
        \<and> (connecting (exec evs that) \<and> \<not> connected (exec evs that) \<longrightarrow>
             sendWebSocketMessage_rounds (rounds @ [evs]) method params this =
               (AwaitDelay 100 method params,
                (exec evs that)\<lparr>log := log (exec evs that) @ [Delay 100]\<rparr>))
        \<and> (\<not> connecting (exec evs that) \<and> \<not> connected (exec evs that) \<longrightarrow>
             sendWebSocketMessage_rounds (rounds @ [evs]) method params this =
               (ReturnedUndefined, exec evs that))
        \<and> (connected (exec evs that) \<and> socket (exec evs that) \<noteq> None \<longrightarrow>
             sendWebSocketMessage_rounds (rounds @ [evs]) method params this =
               (AwaitSlot (next_message_id (exec evs that)),
                (exec evs that)
                  \<lparr>next_message_id := next_message_id (exec evs that) + 1,
                   resolvables :=
                     (resolvables (exec evs that))(next_message_id (exec evs that) \<mapsto> Pending),
                   log := log (exec evs that) @
                     [SocketSend \<lparr>data_id = next_message_id (exec evs that),
                                  data_method = method, data_params = params\<rparr>]\<rparr>)
             \<and> await_send (fst (sendWebSocketMessage_rounds (rounds @ [evs]) method params this))
                  (onmessage (response (next_message_id (exec evs that)) v)
                     (snd (sendWebSocketMessage_rounds (rounds @ [evs]) method params this)))
                = Some (Value v)))"
proof -
  have one: "connecting this \<Longrightarrow> \<not> connected this \<Longrightarrow>
      sendWebSocketMessage method params this =
        (AwaitDelay 100 method params, this\<lparr>log := log this @ [Delay 100]\<rparr>)"
    by (simp add: send_connecting)
  then have again: "connecting this \<Longrightarrow> \<not> connected this \<Longrightarrow>
      sendWebSocketMessage_rounds (evs # rounds) method params this =
          sendWebSocketMessage_rounds rounds method params
            (exec evs (this\<lparr>log := log this @ [Delay 100]\<rparr>))"
    by simp
  have later: "ms = 100 \<and> method_again = method \<and> params_again = params
      \<and> sendWebSocketMessage_rounds (rounds @ [evs]) method params this =
          sendWebSocketMessage method params (exec evs that)"
    if w: "sendWebSocketMessage_rounds rounds method params this
         = (AwaitDelay ms method_again params_again, that)"
    using rounds_waiting_same [OF w] rounds_snoc [OF w, of evs] by simp
  have idle: "\<not> connecting (exec evs that) \<Longrightarrow> \<not> connected (exec evs that) \<Longrightarrow>
      sendWebSocketMessage method params (exec evs that) = (ReturnedUndefined, exec evs that)"
    by (simp add: sendWebSocketMessage_def)
  show ?thesis
    using one again later idle
      send_connecting [of "exec evs that" "method" "params"]
      send_connected [of "exec evs that" "method" "params"]
      await_after_send [of "exec evs that" "method" "params" v v]
    by simp
qed

text \<open>The amended C7 on a session that has opened its socket and sent the handshake: the call waits
  through one round in which nothing happens, the notification arrives in the second
  round, and the frame goes out under id 2 after two delays of 100 ms.\<close>

theorem send_while_connecting_witness:
  "connecting sample_connecting \<and> \<not> connected sample_connecting
   \<and> fst (sendWebSocketMessage_rounds [[]] ''Runtime.evaluate''
        (Some [(''expression'', ''1 + 1'')]) sample_connecting)
      = AwaitDelay 100 ''Runtime.evaluate'' (Some [(''expression'', ''1 + 1'')])
   \<and> connected (exec [OnMessage loadingFinished]
        (snd (sendWebSocketMessage_rounds [[]] ''Runtime.evaluate''
           (Some [(''expression'', ''1 + 1'')]) sample_connecting)))
   \<and> fst (sendWebSocketMessage_rounds [[], [OnMessage loadingFinished]] ''Runtime.evaluate''
        (Some [(''expression'', ''1 + 1'')]) sample_connecting) = AwaitSlot 2
   \<and> log (snd (sendWebSocketMessage_rounds [[], [OnMessage loadingFinished]] ''Runtime.evaluate''
        (Some [(''expression'', ''1 + 1'')]) sample_connecting))
      = [SocketSend \<lparr>data_id = 1, data_method = ''Network.enable'', data_params = None\<rparr>,
         Delay 100, Delay 100,
         SocketSend \<lparr>data_id = 2, data_method = ''Runtime.evaluate'',
                     data_params = Some [(''expression'', ''1 + 1'')]\<rparr>]"
proof -
  let ?p = "Some [(''expression'', ''1 + 1'')]"
  let ?that = "sample_connecting\<lparr>log := log sample_connecting @ [Delay 100, Delay 100]\<rparr>"
  have w: "sendWebSocketMessage_rounds [[]] ''Runtime.evaluate'' ?p sample_connecting
      = (AwaitDelay 100 ''Runtime.evaluate'' ?p, ?that)"
    by (simp add: sample_connecting_eq sendWebSocketMessage_def emit_def)
  have c: "connected (exec [OnMessage loadingFinished] ?that)
      \<and> socket (exec [OnMessage loadingFinished] ?that) \<noteq> None"
    by (simp add: sample_connecting_eq onmessage_def loadingFinished_def truthy_string_def)
  have s: "connecting sample_connecting \<and> \<not> connected sample_connecting"
    by (simp add: sample_connecting_eq)
  show ?thesis
    using s w c
      send_while_connecting [of sample_connecting "''Runtime.evaluate''" ?p
        "[OnMessage loadingFinished]" "[[]]" 100 "''Runtime.evaluate''" ?p ?that sample_value]
    by (simp add: sample_connecting_eq sendWebSocketMessage_def emit_def onmessage_def
        loadingFinished_def truthy_string_def Let_def)
qed

subsection \<open>Shutdown\<close>

text \<open>
  C8, as stated: \<open>done\<close> performs the six steps in order. On a session that was never
  started, and on one whose \<open>start\<close> is still polling, there is no socket: \<open>done\<close>
  performs the drain delay, sets \<open>is_done\<close>, closes the error stream and the subprocess,
  and then throws at \<open>this.socket!.addEventListener\<close>. No listener is registered, no
  socket is closed, and nothing is awaited.
\<close>

theorem done_without_socket_counterexample:
  "done_method (new_HeadlessBrowser :: (string, DOMOutput) HeadlessBrowser)
     = (Inl TypeError,
        new_HeadlessBrowser\<lparr>is_done := True, log := [Sleep 1000, StderrClose, ProcessClose]\<rparr>)
   \<and> socket (snd (start [FetchFailed]
         (new_HeadlessBrowser :: (string, DOMOutput) HeadlessBrowser))) = None
   \<and> fst (done_method (snd (start [FetchFailed]
         (new_HeadlessBrowser :: (string, DOMOutput) HeadlessBrowser)))) = Inl TypeError
   \<and> log (snd (done_method (snd (start [FetchFailed]
         (new_HeadlessBrowser :: (string, DOMOutput) HeadlessBrowser)))))
      = [Sleep 1000, StderrClose, ProcessClose]
   \<and> close_signals (snd (done_method (snd (start [FetchFailed]
         (new_HeadlessBrowser :: (string, DOMOutput) HeadlessBrowser))))) = []"
  by (simp add: done_method_def done_run_def start_def new_HeadlessBrowser_def emit_def)

text \<open>
  C8, amended: on a session that has a socket, \<open>done\<close> performs shutdown in exactly this
  order, each statement on the session the previous one left: the drain delay
  \<open>sleep(1000)\<close>; the assignment of \<open>is_done\<close>, after the delay and before anything is
  closed; the closing of the subprocess's error stream and then of the subprocess; the
  registration of a listener for the socket's close event that resolves the completion
  promise; the closing of the socket; and then it waits for the promise, which is still
  pending. The sessions after the six statements are the ones listed. When the close event
  comes, the close handler throws nothing, since \<open>is_done\<close> is set, nothing is reported,
  and the promise is resolved, so that \<open>done\<close> returns. On a session where \<open>is_done\<close>
  is not set the close handler throws.
\<close>

theorem done_order:
  "(socket this \<noteq> None \<longrightarrow>
     snd (done_run this) =
       [this\<lparr>log := log this @ [Sleep 1000]\<rparr>,
        this\<lparr>is_done := True, log := log this @ [Sleep 1000]\<rparr>,
        this\<lparr>is_done := True, log := log this @ [Sleep 1000, StderrClose]\<rparr>,
        this\<lparr>is_done := True, log := log this @ [Sleep 1000, StderrClose, ProcessClose]\<rparr>,
        this\<lparr>is_done := True,
             close_signals := close_signals this @ [Pending],
             log := log this @ [Sleep 1000, StderrClose, ProcessClose,
                                AddCloseListener (length (close_signals this))]\<rparr>,
        this\<lparr>is_done := True,
             close_signals := close_signals this @ [Pending],
             log := log this @ [Sleep 1000, StderrClose, ProcessClose,
                                AddCloseListener (length (close_signals this)), SocketClose]\<rparr>]
     \<and> done_method this =
       (Inr (length (close_signals this)),
        this\<lparr>is_done := True,
             close_signals := close_signals this @ [Pending],
             log := log this @ [Sleep 1000, StderrClose, ProcessClose,
                                AddCloseListener (length (close_signals this)), SocketClose]\<rparr>)
     \<and> await_promise (length (close_signals this)) (snd (done_method this)) = None
     \<and> fst (onclose (snd (done_method this))) = None
     \<and> log (close_event (snd (done_method this))) = log (snd (done_method this))
     \<and> await_promise (length (close_signals this)) (close_event (snd (done_method this)))
          = Some (Value ()))
   \<and> (is_done this = False \<longrightarrow> fst (onclose this) = Some ''Unhandled. todo'')"
proof -
  have fatal: "is_done this = False \<Longrightarrow> fst (onclose this) = Some ''Unhandled. todo''"
    by (simp add: onclose_def Let_def)
  have shutdown:
    "snd (done_run this) =
       [this\<lparr>log := log this @ [Sleep 1000]\<rparr>,
        this\<lparr>is_done := True, log := log this @ [Sleep 1000]\<rparr>,
        this\<lparr>is_done := True, log := log this @ [Sleep 1000, StderrClose]\<rparr>,
        this\<lparr>is_done := True, log := log this @ [Sleep 1000, StderrClose, ProcessClose]\<rparr>,
        this\<lparr>is_done := True,
             close_signals := close_signals this @ [Pending],
             log := log this @ [Sleep 1000, StderrClose, ProcessClose,
                                AddCloseListener (length (close_signals this))]\<rparr>,
        this\<lparr>is_done := True,
             close_signals := close_signals this @ [Pending],
             log := log this @ [Sleep 1000, StderrClose, ProcessClose,
                                AddCloseListener (length (close_signals this)), SocketClose]\<rparr>]
     \<and> done_method this =
       (Inr (length (close_signals this)),
        this\<lparr>is_done := True,
             close_signals := close_signals this @ [Pending],
             log := log this @ [Sleep 1000, StderrClose, ProcessClose,
                                AddCloseListener (length (close_signals this)), SocketClose]\<rparr>)
     \<and> await_promise (length (close_signals this)) (snd (done_method this)) = None
     \<and> fst (onclose (snd (done_method this))) = None
     \<and> log (close_event (snd (done_method this))) = log (snd (done_method this))
     \<and> await_promise (length (close_signals this)) (close_event (snd (done_method this)))
          = Some (Value ())"
    if sock: "socket this \<noteq> None"
  proof -
    from sock obtain url where url: "socket this = Some url" by auto
    have states: "snd (done_run this) =
       [this\<lparr>log := log this @ [Sleep 1000]\<rparr>,
        this\<lparr>is_done := True, log := log this @ [Sleep 1000]\<rparr>,
        this\<lparr>is_done := True, log := log this @ [Sleep 1000, StderrClose]\<rparr>,
        this\<lparr>is_done := True, log := log this @ [Sleep 1000, StderrClose, ProcessClose]\<rparr>,
        this\<lparr>is_done := True,
             close_signals := close_signals this @ [Pending],
             log := log this @ [Sleep 1000, StderrClose, ProcessClose,
                                AddCloseListener (length (close_signals this))]\<rparr>,
        this\<lparr>is_done := True,
             close_signals := close_signals this @ [Pending],
             log := log this @ [Sleep 1000, StderrClose, ProcessClose,
                                AddCloseListener (length (close_signals this)), SocketClose]\<rparr>]"
      using url by (simp add: done_run_def emit_def Let_def)
    have result: "fst (done_run this) = Inr (length (close_signals this))"
      using url by (simp add: done_run_def emit_def Let_def)
    have body: "done_method this =
       (Inr (length (close_signals this)),
        this\<lparr>is_done := True,
             close_signals := close_signals this @ [Pending],
             log := log this @ [Sleep 1000, StderrClose, ProcessClose,
                                AddCloseListener (length (close_signals this)), SocketClose]\<rparr>)"
      by (simp add: done_method_def states result)
    have waiting: "await_promise (length (close_signals this)) (snd (done_method this)) = None"
      by (simp add: body await_promise_def)
    have quiet: "fst (onclose (snd (done_method this))) = None"
      by (simp add: body onclose_def Let_def)
    have same_log: "log (close_event (snd (done_method this))) = log (snd (done_method this))"
      by (simp add: body close_event_def uncaught_def onclose_def Let_def)
    have signalled:
      "await_promise (length (close_signals this)) (close_event (snd (done_method this)))
          = Some (Value ())"
      by (simp add: body close_event_def uncaught_def onclose_def await_promise_def Let_def
          nth_append)
    from states body waiting quiet same_log signalled show ?thesis by simp
  qed
  from shutdown fatal show ?thesis by blast
qed

text \<open>The amended C8 on the sample session: \<open>is_done\<close> is not set after the delay and
  is set before the error stream is closed, the effects of \<open>done\<close> follow the handshake
  frame in the log in the order of the claim, and the close event completes the call.\<close>

theorem done_order_witness:
  "socket sample_ready \<noteq> None
   \<and> map is_done (snd (done_run sample_ready)) = [False, True, True, True, True, True]
   \<and> map (\<lambda>s. drop 1 (log s)) (snd (done_run sample_ready))
      = [[Sleep 1000],
         [Sleep 1000],
         [Sleep 1000, StderrClose],
         [Sleep 1000, StderrClose, ProcessClose],
         [Sleep 1000, StderrClose, ProcessClose, AddCloseListener 0],
         [Sleep 1000, StderrClose, ProcessClose, AddCloseListener 0, SocketClose]]
   \<and> fst (done_method sample_ready) = Inr 0
   \<and> is_done (snd (done_method sample_ready))
   \<and> log (snd (done_method sample_ready))
      = [SocketSend \<lparr>data_id = 1, data_method = ''Network.enable'', data_params = None\<rparr>,
         Sleep 1000, StderrClose, ProcessClose, AddCloseListener 0, SocketClose]
   \<and> await_promise 0 (snd (done_method sample_ready)) = None
   \<and> await_promise 0 (close_event (snd (done_method sample_ready))) = Some (Value ())"
  using done_order [of sample_ready]
  by (simp add: sample_ready_eq done_method_def done_run_def emit_def close_event_def
      onclose_def uncaught_def await_promise_def Let_def)

subsection \<open>The commands and the classification of errors\<close>



text \<open>
  C4, as stated: the message of the syntax error is the description with the
  \<open>"SyntaxError: "\<close> prefix stripped, followed by the expression. The description
  \<open>Error: SyntaxError: x\<close> contains \<open>SyntaxError\<close> and has no such prefix, so by the
  claim's words the message would keep the whole description; the code removes the text
  from the middle of it.
\<close>

theorem syntax_prefix_counterexample:
  "sublist ''SyntaxError'' ''Error: SyntaxError: x''
   \<and> (checkForErrorResult (sample_exception ''Error: SyntaxError: x'') ''f(''
        :: DOMOutput error + unit)
      = Inl (SyntaxError (''Error: x: '' @ backtick @ ''f('' @ backtick))
   \<and> strip_prefix_spec ''SyntaxError: '' ''Error: SyntaxError: x'' = ''Error: SyntaxError: x''
   \<and> (checkForErrorResult (sample_exception ''Error: SyntaxError: x'') ''f(''
        :: DOMOutput error + unit)
      \<noteq> Inl (SyntaxError (strip_prefix_spec ''SyntaxError: '' ''Error: SyntaxError: x''
                @ '': '' @ backtick @ ''f('' @ backtick))"
proof -
  have "0 \<le> indexOf ''Error: SyntaxError: x'' ''SyntaxError''" by simp
  then have sub: "sublist ''SyntaxError'' ''Error: SyntaxError: x''"
    by (simp only: indexOf_sublist)
  show ?thesis
    using sub
    by (simp add: checkForErrorResult_def sample_exception_def strip_prefix_spec_def)
qed

text \<open>
  C4, amended: without exception details nothing is thrown. With exception details whose
  description contains \<open>SyntaxError\<close>, a \<open>SyntaxError\<close> is thrown whose message is the
  description with its first occurrence of \<open>"SyntaxError: "\<close> removed, followed by a
  colon, a space and the expression between backticks; removing the first occurrence
  strips the prefix when the description starts with the text, removes it from the position
  \<open>indexOf\<close> finds otherwise, and changes nothing when the text does not occur. With any
  other description an \<open>Error\<close> is thrown whose message is the unchanged description
  followed by a colon, a space and the expression between double quotes.
\<close>

theorem checkForErrorResult_classes:
  "(dom_exceptionDetails result = None \<longrightarrow> checkForErrorResult result commandSent = Inr ())
   \<and> (dom_exceptionDetails result = Some detail
        \<and> sublist ''SyntaxError'' (exception_description (details_exception detail)) \<longrightarrow>
        checkForErrorResult result commandSent =
          Inl (SyntaxError
                (replace (exception_description (details_exception detail)) ''SyntaxError: '' []
                 @ '': '' @ backtick @ commandSent @ backtick)))
   \<and> (dom_exceptionDetails result = Some detail
        \<and> \<not> sublist ''SyntaxError'' (exception_description (details_exception detail)) \<longrightarrow>
        checkForErrorResult result commandSent =
          Inl (Error (exception_description (details_exception detail)
                      @ '': '' @ dquote @ commandSent @ dquote)))
   \<and> replace (''SyntaxError: '' @ rest) ''SyntaxError: '' [] = rest
   \<and> (indexOf (a @ ''SyntaxError: '' @ b) ''SyntaxError: '' = int (length a) \<longrightarrow>
        replace (a @ ''SyntaxError: '' @ b) ''SyntaxError: '' [] = a @ b)
   \<and> (\<not> sublist ''SyntaxError: '' s \<longrightarrow> replace s ''SyntaxError: '' [] = s)"
proof -
  have none: "dom_exceptionDetails result = None \<Longrightarrow> checkForErrorResult result commandSent = Inr ()"
    by (simp add: checkForErrorResult_def)
  have syn: "dom_exceptionDetails result = Some detail \<Longrightarrow>
      sublist ''SyntaxError'' (exception_description (details_exception detail)) \<Longrightarrow>
        checkForErrorResult result commandSent =
          Inl (SyntaxError
                (replace (exception_description (details_exception detail)) ''SyntaxError: '' []
                 @ '': '' @ backtick @ commandSent @ backtick))"
    using indexOf_sublist [of "exception_description (details_exception detail)" "''SyntaxError''"]
    by (simp add: checkForErrorResult_def Let_def)
  have other: "dom_exceptionDetails result = Some detail \<Longrightarrow>
      \<not> sublist ''SyntaxError'' (exception_description (details_exception detail)) \<Longrightarrow>
        checkForErrorResult result commandSent =
          Inl (Error (exception_description (details_exception detail)
                      @ '': '' @ dquote @ commandSent @ dquote))"
    using indexOf_sublist [of "exception_description (details_exception detail)" "''SyntaxError''"]
    by (simp add: checkForErrorResult_def Let_def)
  have pre: "replace (''SyntaxError: '' @ rest) ''SyntaxError: '' [] = rest"
    using replace_prefix [of "''SyntaxError: ''" rest "[]"] by simp
  have fst: "indexOf (a @ ''SyntaxError: '' @ b) ''SyntaxError: '' = int (length a) \<Longrightarrow>
        replace (a @ ''SyntaxError: '' @ b) ''SyntaxError: '' [] = a @ b"
    using replace_first [of a "''SyntaxError: ''" b "[]"] by simp
  have no: "\<not> sublist ''SyntaxError: '' s \<Longrightarrow> replace s ''SyntaxError: '' [] = s"
    using indexOf_sublist [of s "''SyntaxError: ''"] replace_none [of s "''SyntaxError: ''" "[]"]
    by simp
  from none syn other pre fst no show ?thesis by blast
qed

text \<open>The amended C4 on a value, on a syntax error, on a reference error, and on the
  description of the counterexample.\<close>

theorem checkForErrorResult_classes_witness:
  "dom_exceptionDetails sample_value = None
   \<and> (checkForErrorResult sample_value ''1 + 1'' :: DOMOutput error + unit) = Inr ()
   \<and> sublist ''SyntaxError'' ''SyntaxError: Unexpected end of input''
   \<and> (checkForErrorResult (sample_exception ''SyntaxError: Unexpected end of input'') ''window.''
        :: DOMOutput error + unit)
      = Inl (SyntaxError (''Unexpected end of input: '' @ backtick @ ''window.'' @ backtick))
   \<and> \<not> sublist ''SyntaxError'' ''ReferenceError: x is not defined''
   \<and> (checkForErrorResult (sample_exception ''ReferenceError: x is not defined'') ''x''
        :: DOMOutput error + unit)
      = Inl (Error (''ReferenceError: x is not defined: '' @ dquote @ ''x'' @ dquote))
   \<and> replace ''Error: SyntaxError: x'' ''SyntaxError: '' [] = ''Error: x''"
proof -
  have yes: "sublist ''SyntaxError'' ''SyntaxError: Unexpected end of input''"
    using indexOf_sublist [of "''SyntaxError: Unexpected end of input''" "''SyntaxError''"] by simp
  have no: "\<not> sublist ''SyntaxError'' ''ReferenceError: x is not defined''"
    using indexOf_sublist [of "''ReferenceError: x is not defined''" "''SyntaxError''"] by simp
  have ix: "indexOf (''Error: '' @ ''SyntaxError: '' @ ''x'') ''SyntaxError: ''
      = int (length ''Error: '')"
    by simp
  have r1: "(checkForErrorResult sample_value ''1 + 1'' :: DOMOutput error + unit) = Inr ()"
    using checkForErrorResult_classes
      [where result = sample_value and commandSent = "''1 + 1''", THEN conjunct1]
    by (simp add: sample_value_def)
  have r2: "(checkForErrorResult (sample_exception ''SyntaxError: Unexpected end of input'')
        ''window.'' :: DOMOutput error + unit)
      = Inl (SyntaxError (''Unexpected end of input: '' @ backtick @ ''window.'' @ backtick))"
    using yes checkForErrorResult_classes
      [where result = "sample_exception ''SyntaxError: Unexpected end of input''"
        and commandSent = "''window.''"
        and detail = "the (dom_exceptionDetails
           (sample_exception ''SyntaxError: Unexpected end of input''))",
        THEN conjunct2, THEN conjunct1]
    by (simp add: sample_exception_def)
  have r3: "(checkForErrorResult (sample_exception ''ReferenceError: x is not defined'') ''x''
        :: DOMOutput error + unit)
      = Inl (Error (''ReferenceError: x is not defined: '' @ dquote @ ''x'' @ dquote))"
    using no checkForErrorResult_classes
      [where result = "sample_exception ''ReferenceError: x is not defined''"
        and commandSent = "''x''"
        and detail = "the (dom_exceptionDetails
           (sample_exception ''ReferenceError: x is not defined''))",
        THEN conjunct2, THEN conjunct2, THEN conjunct1]
    by (simp add: sample_exception_def)
  have r4: "replace ''Error: SyntaxError: x'' ''SyntaxError: '' [] = ''Error: x''"
    using ix checkForErrorResult_classes
      [where a = "''Error: ''" and b = "''x''",
        THEN conjunct2, THEN conjunct2, THEN conjunct2, THEN conjunct2, THEN conjunct1]
    by simp
  show ?thesis
    using yes no r1 r2 r3 r4 by (simp add: sample_value_def)
qed

text \<open>
  C5, as stated: when the result type is not \<open>undefined\<close> and nothing is thrown,
  \<open>getInputValue\<close> returns the success value, or the empty string when the value is
  absent. For the results below the value is there, \<open>false\<close> in the first and \<open>0\<close> in
  the second, and what is returned is the empty string, not the value.
\<close>

theorem getInputValue_falsy_counterexample:
  "result_value (dom_result sample_false) = Some (JBoolean False)
   \<and> getInputValue_resume ''input'' (Value sample_false) = Inr (JString [])
   \<and> getInputValue_resume ''input'' (Value sample_false) \<noteq> Inr (JBoolean False)
   \<and> result_value (dom_result sample_zero) = Some (JNumber 0)
   \<and> getInputValue_resume ''li'' (Value sample_zero) = Inr (JString [])
   \<and> getInputValue_resume ''li'' (Value sample_zero) \<noteq> Inr (JNumber 0)"
  by (simp add: getInputValue_resume_def checkForErrorResult_def sample_false_def
      sample_zero_def)

text \<open>
  C5, amended: \<open>getInputValue\<close> sends \<open>Runtime.evaluate\<close> with the expression
  \<open>document.querySelector('<selector>').value\<close>: on a connected session exactly one
  frame is written, with the next id, that method and that expression as its only
  parameter, and the call waits for the slot of that id. For a response whose result type
  is \<open>undefined\<close> it returns the string \<open>undefined\<close>, whatever else the response holds.
  Otherwise, with exception details it throws the error of the classification; without
  them it returns the value of the result when there is one and it is truthy, and the
  empty string when the value is absent or falsy (\<open>false\<close>, \<open>0\<close>, \<open>null\<close>, the empty
  string).
\<close>

theorem getInputValue_result:
  "getInputValue_send selector this =
     sendWebSocketMessage ''Runtime.evaluate''
       (Some [(''expression'',
               ''document.querySelector('' @ [CHR 0x27] @ selector @ [CHR 0x27] @ '').value'')])
       this
   \<and> (connected this \<and> socket this \<noteq> None \<longrightarrow>
        getInputValue_send selector this =
          (AwaitSlot (next_message_id this),
           this\<lparr>next_message_id := next_message_id this + 1,
                resolvables := (resolvables this)(next_message_id this \<mapsto> Pending),
                log := log this @
                  [SocketSend \<lparr>data_id = next_message_id this,
                               data_method = ''Runtime.evaluate'',
                               data_params = Some [(''expression'',
                                 ''document.querySelector('' @ [CHR 0x27] @ selector
                                   @ [CHR 0x27] @ '').value'')]\<rparr>]\<rparr>))
   \<and> (result_type (dom_result res) = ''undefined'' \<longrightarrow>
        getInputValue_resume selector (Value res) = Inr (JString ''undefined''))
   \<and> (result_type (dom_result res) \<noteq> ''undefined'' \<and> dom_exceptionDetails res = None \<longrightarrow>
        (result_value (dom_result res) = None \<longrightarrow>
           getInputValue_resume selector (Value res) = Inr (JString []))
        \<and> (result_value (dom_result res) = Some v \<and> truthy v \<longrightarrow>
           getInputValue_resume selector (Value res) = Inr v)
        \<and> (result_value (dom_result res) = Some v \<and> \<not> truthy v \<longrightarrow>
           getInputValue_resume selector (Value res) = Inr (JString [])))
   \<and> (result_type (dom_result res) \<noteq> ''undefined'' \<and> dom_exceptionDetails res \<noteq> None \<longrightarrow>
        (\<exists>e. checkForErrorResult res (getInputValue_command selector) = Inl e
           \<and> getInputValue_resume selector (Value res) = Inl e))
   \<and> truthy (JString s) = (s \<noteq> [])
   \<and> truthy (JNumber n) = (n \<noteq> 0)
   \<and> truthy (JBoolean b) = b
   \<and> \<not> truthy JNull"
proof -
  have cmd: "getInputValue_command selector
      = ''document.querySelector('' @ [CHR 0x27] @ selector @ [CHR 0x27] @ '').value''"
    by (simp add: getInputValue_command_def squote_def)
  have call: "getInputValue_send selector this =
     sendWebSocketMessage ''Runtime.evaluate''
       (Some [(''expression'',
               ''document.querySelector('' @ [CHR 0x27] @ selector @ [CHR 0x27] @ '').value'')])
       this"
    unfolding getInputValue_send_def cmd by (rule refl)
  have sent: "connected this \<Longrightarrow> socket this \<noteq> None \<Longrightarrow>
        getInputValue_send selector this =
          (AwaitSlot (next_message_id this),
           this\<lparr>next_message_id := next_message_id this + 1,
                resolvables := (resolvables this)(next_message_id this \<mapsto> Pending),
                log := log this @
                  [SocketSend \<lparr>data_id = next_message_id this,
                               data_method = ''Runtime.evaluate'',
                               data_params = Some [(''expression'',
                                 ''document.querySelector('' @ [CHR 0x27] @ selector
                                   @ [CHR 0x27] @ '').value'')]\<rparr>]\<rparr>)"
    unfolding getInputValue_send_def cmd by (rule send_connected)
  have undef: "result_type (dom_result res) = ''undefined'' \<Longrightarrow>
        getInputValue_resume selector (Value res) = Inr (JString ''undefined'')"
    by (simp add: getInputValue_resume_def)
  have absent: "result_type (dom_result res) \<noteq> ''undefined'' \<Longrightarrow>
      dom_exceptionDetails res = None \<Longrightarrow> result_value (dom_result res) = None \<Longrightarrow>
        getInputValue_resume selector (Value res) = Inr (JString [])"
    by (simp add: getInputValue_resume_def checkForErrorResult_def)
  have val: "result_type (dom_result res) \<noteq> ''undefined'' \<Longrightarrow>
      dom_exceptionDetails res = None \<Longrightarrow> result_value (dom_result res) = Some v \<Longrightarrow>
      truthy v \<Longrightarrow> getInputValue_resume selector (Value res) = Inr v"
    by (simp add: getInputValue_resume_def checkForErrorResult_def)
  have falsy: "result_type (dom_result res) \<noteq> ''undefined'' \<Longrightarrow>
      dom_exceptionDetails res = None \<Longrightarrow> result_value (dom_result res) = Some v \<Longrightarrow>
      \<not> truthy v \<Longrightarrow> getInputValue_resume selector (Value res) = Inr (JString [])"
    by (simp add: getInputValue_resume_def checkForErrorResult_def)
  have raised: "result_type (dom_result res) \<noteq> ''undefined'' \<Longrightarrow>
      dom_exceptionDetails res \<noteq> None \<Longrightarrow>
        (\<exists>e. checkForErrorResult res (getInputValue_command selector)
                = (Inl e :: DOMOutput error + unit)
           \<and> getInputValue_resume selector (Value res) = Inl e)"
    unfolding getInputValue_resume_def
    by (auto simp: checkForErrorResult_def Let_def)
  have t: "truthy (JString s) = (s \<noteq> []) \<and> truthy (JNumber n) = (n \<noteq> 0)
      \<and> truthy (JBoolean b) = b \<and> \<not> truthy JNull"
    by simp
  from call sent undef absent val falsy raised t show ?thesis by blast
qed

text \<open>The amended C5 on the sample session and on an undefined result, a string value,
  the value \<open>false\<close> and a syntax error.\<close>

theorem getInputValue_result_witness:
  "connected sample_ready \<and> socket sample_ready \<noteq> None
   \<and> fst (getInputValue_send ''input'' sample_ready) = AwaitSlot 2
   \<and> frames (log (snd (getInputValue_send ''input'' sample_ready)))
      = [\<lparr>data_id = 1, data_method = ''Network.enable'', data_params = None\<rparr>,
         \<lparr>data_id = 2, data_method = ''Runtime.evaluate'',
          data_params = Some [(''expression'', ''document.querySelector('input').value'')]\<rparr>]
   \<and> result_type (dom_result sample_undefined) = ''undefined''
   \<and> getInputValue_resume ''div'' (Value sample_undefined) = Inr (JString ''undefined'')
   \<and> result_type (dom_result sample_value) \<noteq> ''undefined''
   \<and> dom_exceptionDetails sample_value = None
   \<and> getInputValue_resume ''input'' (Value sample_value) = Inr (JString ''Edward'')
   \<and> getInputValue_resume ''input'' (Value sample_false) = Inr (JString [])
   \<and> dom_exceptionDetails (sample_exception ''SyntaxError: Unexpected end of input'') \<noteq> None
   \<and> getInputValue_resume ''input''
        (Value (sample_exception ''SyntaxError: Unexpected end of input''))
      = Inl (SyntaxError (''Unexpected end of input: '' @ backtick
                          @ ''document.querySelector('input').value'' @ backtick))"
  using getInputValue_result [of "''div''" sample_ready sample_undefined]
    getInputValue_result [of "''input''" sample_ready sample_value "JString ''Edward''"]
    getInputValue_result [of "''input''" sample_ready sample_false "JBoolean False"]
    getInputValue_result [of "''input''" sample_ready
      "sample_exception ''SyntaxError: Unexpected end of input''"]
  by (simp add: sample_undefined_def sample_value_def sample_false_def sample_exception_def
      sample_ready_eq checkForErrorResult_def getInputValue_command_def squote_def
      getInputValue_resume_def)

subsection \<open>Sending on a session that is neither connected nor connecting\<close>

text \<open>
  C10: on a session that is neither connected nor connecting, \<open>sendWebSocketMessage\<close>
  returns \<open>undefined\<close> at once, however many rounds the caller would have waited, and
  leaves the session as it was: the counter, the mapping and the frames written to the
  socket are unchanged.
\<close>

theorem sendWebSocketMessage_idle:
  "\<not> connected this \<and> \<not> connecting this \<longrightarrow>
     sendWebSocketMessage method params this = (ReturnedUndefined, this)
     \<and> sendWebSocketMessage_rounds rounds method params this = (ReturnedUndefined, this)
     \<and> await_send (fst (sendWebSocketMessage method params this))
          (snd (sendWebSocketMessage method params this)) = Some NoValue
     \<and> next_message_id (snd (sendWebSocketMessage method params this)) = next_message_id this
     \<and> resolvables (snd (sendWebSocketMessage method params this)) = resolvables this
     \<and> frames (log (snd (sendWebSocketMessage method params this))) = frames (log this)"
  by (cases rounds) (simp_all add: sendWebSocketMessage_def)

text \<open>C10 on a new session, before \<open>start\<close>, and on the sample session after its socket
  has closed.\<close>

theorem sendWebSocketMessage_idle_witness:
  "\<not> connected (new_HeadlessBrowser :: (string, DOMOutput) HeadlessBrowser)
   \<and> \<not> connecting (new_HeadlessBrowser :: (string, DOMOutput) HeadlessBrowser)
   \<and> sendWebSocketMessage ''Runtime.evaluate'' (Some [(''expression'', ''1 + 1'')])
        (new_HeadlessBrowser :: (string, DOMOutput) HeadlessBrowser)
      = (ReturnedUndefined, new_HeadlessBrowser)
   \<and> \<not> connected (close_event sample_ready) \<and> \<not> connecting (close_event sample_ready)
   \<and> sendWebSocketMessage ''Runtime.evaluate'' (Some [(''expression'', ''1 + 1'')])
        (close_event sample_ready)
      = (ReturnedUndefined, close_event sample_ready)"
  using sendWebSocketMessage_idle [of "new_HeadlessBrowser :: (string, DOMOutput) HeadlessBrowser"
      "''Runtime.evaluate''" "Some [(''expression'', ''1 + 1'')]" "[]"]
    sendWebSocketMessage_idle [of "close_event sample_ready"
      "''Runtime.evaluate''" "Some [(''expression'', ''1 + 1'')]" "[]"]
  by (simp add: new_HeadlessBrowser_def sample_ready_eq close_event_def onclose_def uncaught_def
      emit_def Let_def)

end
